theory Spec2Isabelle
  imports Complex_Main "HOL-Library.Code_Target_Numeral"
begin

section \<open>Python values, exceptions and the decimal context\<close>

text \<open>
  The exceptions that the functions of \<^verbatim>\<open>filesizelib/core.py\<close> raise themselves
  (\<^verbatim>\<open>TypeError\<close>, \<^verbatim>\<open>ValueError\<close>), the ones the \<^verbatim>\<open>decimal\<close> module raises under the
  traps of the default context (\<^verbatim>\<open>InvalidOperation\<close>, \<^verbatim>\<open>DivisionByZero\<close>, \<^verbatim>\<open>Overflow\<close>),
  and \<^verbatim>\<open>StopIteration\<close> of \<^verbatim>\<open>next(iter(d))\<close> on an empty dict.
\<close>

datatype py_error =
  TypeError | ValueError | InvalidOperation | DivisionByZero | Overflow | StopIteration

text \<open>
  A \<^verbatim>\<open>Decimal\<close> is a sign, a coefficient and an exponent (the number
  \<open>(-1)^sign * coeff * 10^expo\<close>), an infinity with a sign, or a quiet or signalling NaN
  (the sign and the payload of a NaN are never looked at by the code and are left out).
\<close>

datatype decimal =
  Finite (dsign: bool) (coeff: nat) (expo: int)
| Infinity bool
| NaN
| sNaN

text \<open>
  \<^verbatim>\<open>getcontext().prec = 50\<close> (line 16 of core.py); the other fields are those of
  Python's default context: rounding half-even, \<^verbatim>\<open>Emax = 999999\<close>, \<^verbatim>\<open>Emin = -999999\<close>.
\<close>

definition prec :: nat where
  "prec = 50"

definition Emax :: int where
  "Emax = 999999"

definition Emin :: int where
  "Emin = - 999999"

definition Etiny :: int where
  "Etiny = Emin - int prec + 1"

definition Etop :: int where
  "Etop = Emax - int prec + 1"

text \<open>\<^verbatim>\<open>len(str(n))\<close>: the number of decimal digits of a coefficient (1 for 0).\<close>

fun ndigits :: "nat \<Rightarrow> nat" where
  "ndigits n = (if n < 10 then 1 else Suc (ndigits (n div 10)))"

declare ndigits.simps [simp del]

text \<open>
  Dropping the last \<open>k\<close> digits of a coefficient, rounding half-even
  (\<^verbatim>\<open>ROUND_HALF_EVEN\<close>): up when the dropped part is more than half a unit, or exactly
  half and the kept part is odd.
\<close>

definition round_half_even :: "nat \<Rightarrow> nat \<Rightarrow> nat" where
  "round_half_even c k =
     (let q = c div 10 ^ k; r = c mod 10 ^ k
      in if 2 * r > 10 ^ k \<or> (2 * r = 10 ^ k \<and> odd q) then q + 1 else q)"

text \<open>
  \<^verbatim>\<open>Decimal._fix\<close>: every arithmetic result is brought into the context. A zero keeps
  its exponent, clamped to \<open>[Etiny, Emax]\<close>. A coefficient of more than \<open>prec\<close> digits is
  rounded to \<open>prec\<close> digits; a result above \<open>Emax\<close> raises \<^verbatim>\<open>Overflow\<close>; a result below
  \<open>Emin\<close> is subnormal and is rounded at exponent \<open>Etiny\<close>.
\<close>

definition dec_fix :: "bool \<Rightarrow> nat \<Rightarrow> int \<Rightarrow> py_error + decimal" where
  "dec_fix s c e =
     (if c = 0 then Inr (Finite s 0 (min (max e Etiny) Emax))
      else
        let exp_min0 = int (ndigits c) + e - int prec in
        if exp_min0 > Etop then Inl Overflow
        else
          let exp_min = max exp_min0 Etiny in
          if e < exp_min then
            (let c' = round_half_even c (nat (exp_min - e)) in
             if ndigits c' > prec then
               (if exp_min + 1 > Etop then Inl Overflow
                else Inr (Finite s (c' div 10) (exp_min + 1)))
             else Inr (Finite s c' exp_min))
          else Inr (Finite s c e))"

subsection \<open>Arithmetic of \<^verbatim>\<open>Decimal\<close>\<close>

text \<open>\<^verbatim>\<open>Decimal.__mul__\<close>: the exact product, then \<^verbatim>\<open>_fix\<close>.\<close>

fun dec_mul :: "decimal \<Rightarrow> decimal \<Rightarrow> py_error + decimal" where
  "dec_mul sNaN _ = Inl InvalidOperation"
| "dec_mul _ sNaN = Inl InvalidOperation"
| "dec_mul NaN _ = Inr NaN"
| "dec_mul _ NaN = Inr NaN"
| "dec_mul (Infinity s) (Infinity t) = Inr (Infinity (s \<noteq> t))"
| "dec_mul (Infinity s) (Finite t d f) =
     (if d = 0 then Inl InvalidOperation else Inr (Infinity (s \<noteq> t)))"
| "dec_mul (Finite s c e) (Infinity t) =
     (if c = 0 then Inl InvalidOperation else Inr (Infinity (s \<noteq> t)))"
| "dec_mul (Finite s c e) (Finite t d f) = dec_fix (s \<noteq> t) (c * d) (e + f)"

text \<open>The signed coefficient of a finite decimal, as an integer.\<close>

definition signed :: "bool \<Rightarrow> nat \<Rightarrow> int" where
  "signed s c = (if s then - int c else int c)"

text \<open>
  \<^verbatim>\<open>Decimal.__add__\<close>: both coefficients are aligned at the smaller exponent and added
  exactly, then \<^verbatim>\<open>_fix\<close>. A zero sum of two zeros is negative only when both are; any
  other zero sum is positive (the rounding mode is not \<^verbatim>\<open>ROUND_FLOOR\<close>).
\<close>

fun dec_add :: "decimal \<Rightarrow> decimal \<Rightarrow> py_error + decimal" where
  "dec_add sNaN _ = Inl InvalidOperation"
| "dec_add _ sNaN = Inl InvalidOperation"
| "dec_add NaN _ = Inr NaN"
| "dec_add _ NaN = Inr NaN"
| "dec_add (Infinity s) (Infinity t) =
     (if s \<noteq> t then Inl InvalidOperation else Inr (Infinity s))"
| "dec_add (Infinity s) (Finite t d f) = Inr (Infinity s)"
| "dec_add (Finite s c e) (Infinity t) = Inr (Infinity t)"
| "dec_add (Finite s c e) (Finite t d f) =
     (let m = min e f;
          z = signed s c * 10 ^ nat (e - m) + signed t d * 10 ^ nat (f - m)
      in dec_fix (if z = 0 then c = 0 \<and> d = 0 \<and> s \<and> t else z < 0) (nat \<bar>z\<bar>) m)"

text \<open>\<^verbatim>\<open>copy_negate\<close> and \<^verbatim>\<open>Decimal.__sub__\<close> (\<^verbatim>\<open>self + other.copy_negate()\<close>).\<close>

fun copy_negate :: "decimal \<Rightarrow> decimal" where
  "copy_negate (Finite s c e) = Finite (\<not> s) c e"
| "copy_negate (Infinity s) = Infinity (\<not> s)"
| "copy_negate NaN = NaN"
| "copy_negate sNaN = sNaN"

definition dec_sub :: "decimal \<Rightarrow> decimal \<Rightarrow> py_error + decimal" where
  "dec_sub a b = dec_add a (copy_negate b)"

text \<open>
  The loop of \<^verbatim>\<open>__truediv__\<close> on an exact quotient:
  \<^verbatim>\<open>while exp < ideal_exp and coeff % 10 == 0: coeff //= 10; exp += 1\<close>,
  with the distance to the ideal exponent as the counter.
\<close>

fun strip_zeros :: "nat \<Rightarrow> nat \<Rightarrow> int \<Rightarrow> nat \<times> int" where
  "strip_zeros 0 c e = (c, e)"
| "strip_zeros (Suc n) c e =
     (if c mod 10 = 0 then strip_zeros n (c div 10) (e + 1) else (c, e))"

text \<open>
  \<^verbatim>\<open>Decimal.__truediv__\<close>: the quotient is computed to \<open>prec + 1\<close> or \<open>prec + 2\<close> digits
  with a sticky last digit when the division leaves a remainder, then \<^verbatim>\<open>_fix\<close>.
\<close>

fun dec_div :: "decimal \<Rightarrow> decimal \<Rightarrow> py_error + decimal" where
  "dec_div sNaN _ = Inl InvalidOperation"
| "dec_div _ sNaN = Inl InvalidOperation"
| "dec_div NaN _ = Inr NaN"
| "dec_div _ NaN = Inr NaN"
| "dec_div (Infinity s) (Infinity t) = Inl InvalidOperation"
| "dec_div (Infinity s) (Finite t d f) = Inr (Infinity (s \<noteq> t))"
| "dec_div (Finite s c e) (Infinity t) = Inr (Finite (s \<noteq> t) 0 Etiny)"
| "dec_div (Finite s c e) (Finite t d f) =
     (if d = 0 then (if c = 0 then Inl InvalidOperation else Inl DivisionByZero)
      else if c = 0 then dec_fix (s \<noteq> t) 0 (e - f)
      else
        let shift = int (ndigits d) - int (ndigits c) + int prec + 1;
            ex = e - f - shift;
            n = (if shift \<ge> 0 then c * 10 ^ nat shift else c);
            m = (if shift \<ge> 0 then d else d * 10 ^ nat (- shift));
            q = n div m;
            r = n mod m
        in if r \<noteq> 0 then dec_fix (s \<noteq> t) (if q mod 5 = 0 then q + 1 else q) ex
           else (case strip_zeros (nat (e - f - ex)) q ex of
                   (q', ex') \<Rightarrow> dec_fix (s \<noteq> t) q' ex'))"

text \<open>\<^verbatim>\<open>adjusted()\<close>: the exponent of the leading digit.\<close>

definition adjusted :: "nat \<Rightarrow> int \<Rightarrow> int" where
  "adjusted c e = e + int (ndigits c) - 1"

text \<open>
  \<^verbatim>\<open>Decimal._divide\<close> for a finite dividend and a finite non-zero divisor: the integer
  quotient (truncated) and the remainder, or \<^verbatim>\<open>InvalidOperation\<close> (its subclass
  \<^verbatim>\<open>DivisionImpossible\<close>) when the quotient needs more than \<open>prec\<close> digits.
\<close>

definition divide_int ::
  "bool \<Rightarrow> nat \<Rightarrow> int \<Rightarrow> bool \<Rightarrow> nat \<Rightarrow> int \<Rightarrow> py_error + (decimal \<times> decimal)" where
  "divide_int s c e t d f =
     (let ideal_exp = min e f;
          expdiff = adjusted c e - adjusted d f
      in if c = 0 \<or> expdiff \<le> - 2 then
           Inr (Finite (s \<noteq> t) 0 0,
                Finite s (if c = 0 then 0 else c * 10 ^ nat (e - ideal_exp)) ideal_exp)
         else if expdiff \<le> int prec then
           (let a = (if e \<ge> f then c * 10 ^ nat (e - f) else c);
                b = (if e \<ge> f then d else d * 10 ^ nat (f - e));
                q = a div b;
                r = a mod b
            in if q < 10 ^ prec then Inr (Finite (s \<noteq> t) q 0, Finite s r ideal_exp)
               else Inl InvalidOperation)
         else Inl InvalidOperation)"

text \<open>\<^verbatim>\<open>Decimal.__floordiv__\<close>.\<close>

fun dec_floordiv :: "decimal \<Rightarrow> decimal \<Rightarrow> py_error + decimal" where
  "dec_floordiv sNaN _ = Inl InvalidOperation"
| "dec_floordiv _ sNaN = Inl InvalidOperation"
| "dec_floordiv NaN _ = Inr NaN"
| "dec_floordiv _ NaN = Inr NaN"
| "dec_floordiv (Infinity s) (Infinity t) = Inl InvalidOperation"
| "dec_floordiv (Infinity s) (Finite t d f) = Inr (Infinity (s \<noteq> t))"
| "dec_floordiv (Finite s c e) (Infinity t) = Inr (Finite (s \<noteq> t) 0 0)"
| "dec_floordiv (Finite s c e) (Finite t d f) =
     (if d = 0 then (if c \<noteq> 0 then Inl DivisionByZero else Inl InvalidOperation)
      else (case divide_int s c e t d f of
              Inl err \<Rightarrow> Inl err
            | Inr (q, r) \<Rightarrow> Inr q))"

text \<open>\<^verbatim>\<open>Decimal.__mod__\<close>: the remainder of \<^verbatim>\<open>_divide\<close>, then \<^verbatim>\<open>_fix\<close>.\<close>

fun dec_mod :: "decimal \<Rightarrow> decimal \<Rightarrow> py_error + decimal" where
  "dec_mod sNaN _ = Inl InvalidOperation"
| "dec_mod _ sNaN = Inl InvalidOperation"
| "dec_mod NaN _ = Inr NaN"
| "dec_mod _ NaN = Inr NaN"
| "dec_mod (Infinity s) _ = Inl InvalidOperation"
| "dec_mod (Finite s c e) (Infinity t) = dec_fix s c e"
| "dec_mod (Finite s c e) (Finite t d f) =
     (if d = 0 then Inl InvalidOperation
      else (case divide_int s c e t d f of
              Inl err \<Rightarrow> Inl err
            | Inr (q, r) \<Rightarrow> dec_fix (dsign r) (coeff r) (expo r)))"

text \<open>
  The comparisons \<^verbatim>\<open>d < 0\<close> and \<^verbatim>\<open>d <= 0\<close> of a Decimal with zero: an ordering
  comparison with a NaN raises \<^verbatim>\<open>InvalidOperation\<close>; a zero of either sign is not
  below zero.
\<close>

fun dec_lt_zero :: "decimal \<Rightarrow> py_error + bool" where
  "dec_lt_zero (Finite s c e) = Inr (s \<and> c \<noteq> 0)"
| "dec_lt_zero (Infinity s) = Inr s"
| "dec_lt_zero NaN = Inl InvalidOperation"
| "dec_lt_zero sNaN = Inl InvalidOperation"

fun dec_le_zero :: "decimal \<Rightarrow> py_error + bool" where
  "dec_le_zero (Finite s c e) = Inr (s \<or> c = 0)"
| "dec_le_zero (Infinity s) = Inr s"
| "dec_le_zero NaN = Inl InvalidOperation"
| "dec_le_zero sNaN = Inl InvalidOperation"

text \<open>The number a finite decimal denotes.\<close>

definition pow10 :: "int \<Rightarrow> rat" where
  "pow10 e = (if e \<ge> 0 then 10 ^ nat e else 1 / 10 ^ nat (- e))"

fun dec_val :: "decimal \<Rightarrow> rat" where
  "dec_val (Finite s c e) = of_int (signed s c) * pow10 e"
| "dec_val _ = 0"


section \<open>Strings\<close>

text \<open>
  A Python \<^verbatim>\<open>str\<close> is a list of code points. \<open>ord\<close> gives the code point of an ASCII
  character and \<open>str_of\<close> the \<^verbatim>\<open>str\<close> of an ASCII literal, to write them down.
\<close>

type_synonym codepoint = nat

type_synonym pystr = "codepoint list"

definition ord :: "char \<Rightarrow> codepoint" where
  "ord c = of_char c"

definition str_of :: "string \<Rightarrow> pystr" where
  "str_of s = map ord s"

text \<open>
  \<^verbatim>\<open>str.isspace\<close>, which \<^verbatim>\<open>strip\<close> and the class \<^verbatim>\<open>\s\<close> of a \<^verbatim>\<open>str\<close> pattern use: the
  code points U+0009-000D, U+001C-0020, U+0085, U+00A0, U+1680, U+2000-200A, U+2028,
  U+2029, U+202F, U+205F and U+3000.
\<close>

definition is_space :: "codepoint \<Rightarrow> bool" where
  "is_space c =
     (c \<in> {9, 10, 11, 12, 13, 28, 29, 30, 31, 32, 133, 160, 5760} \<union> {8192..8202} \<union>
          {8232, 8233, 8239, 8287, 12288})"

text \<open>The class \<^verbatim>\<open>[0-9]\<close>: the ASCII digits.\<close>

definition is_digit :: "codepoint \<Rightarrow> bool" where
  "is_digit c = (48 \<le> c \<and> c \<le> 57)"

text \<open>
  The class \<^verbatim>\<open>[a-z]\<close> under \<^verbatim>\<open>re.IGNORECASE\<close> on a \<^verbatim>\<open>str\<close>: a-z and A-Z, and the code
  points that the flag makes equivalent to one of them: U+0130 and U+0131 (dotted capital
  and dotless small i), U+017F (long s) and U+212A (the Kelvin sign).
\<close>

definition is_letter :: "codepoint \<Rightarrow> bool" where
  "is_letter c =
     ((97 \<le> c \<and> c \<le> 122) \<or> (65 \<le> c \<and> c \<le> 90) \<or> c \<in> {304, 305, 383, 8490})"

text \<open>
  \<^verbatim>\<open>str.lower\<close>, code point by code point: A-Z and the capital letters U+00C0-00DE
  (without U+00D7) move up by 32, U+0130 becomes \<^verbatim>\<open>i\<close> and U+0307, the Kelvin sign
  becomes \<^verbatim>\<open>k\<close>. These are the code points whose lower case holds an ASCII character.
  The case mapping of the other code points above U+00FF is not part of the model, which
  keeps them: their lower case is again above U+007F, is not whitespace and is neither
  U+0131 nor U+017F, so that, mapped or kept, they are in no class of the pattern of the
  parser.
\<close>

definition lower_char :: "codepoint \<Rightarrow> pystr" where
  "lower_char c =
     (if (65 \<le> c \<and> c \<le> 90) \<or> (192 \<le> c \<and> c \<le> 222 \<and> c \<noteq> 215) then [c + 32]
      else if c = 304 then [105, 775]
      else if c = 8490 then [107]
      else [c])"

definition lower :: "pystr \<Rightarrow> pystr" where
  "lower s = concat (map lower_char s)"

definition strip :: "pystr \<Rightarrow> pystr" where
  "strip s = rev (dropWhile is_space (rev (dropWhile is_space s)))"

text \<open>\<^verbatim>\<open>s.replace(a, b)\<close> for single characters.\<close>

definition replace :: "codepoint \<Rightarrow> codepoint \<Rightarrow> pystr \<Rightarrow> pystr" where
  "replace a b s = map (\<lambda>c. if c = a then b else c) s"

text \<open>\<^verbatim>\<open>int(ds)\<close> of a string of digits.\<close>

definition int_of_digits :: "pystr \<Rightarrow> nat" where
  "int_of_digits ds = foldl (\<lambda>n c. 10 * n + (c - 48)) 0 ds"

subsection \<open>\<^verbatim>\<open>Decimal(str)\<close>\<close>

text \<open>
  The exponent part of a numeric string: nothing, or \<^verbatim>\<open>E\<close>, an optional sign and at
  least one digit.
\<close>

definition parse_exponent :: "pystr \<Rightarrow> int option" where
  "parse_exponent r =
     (case r of
        [] \<Rightarrow> Some 0
      | c # ds \<Rightarrow>
          if c = ord CHR ''e'' \<or> c = ord CHR ''E'' then
            (case ds of
               [] \<Rightarrow> None
             | d # ds' \<Rightarrow>
                 if d = ord CHR ''-'' then
                   (if ds' \<noteq> [] \<and> list_all is_digit ds'
                    then Some (- int (int_of_digits ds')) else None)
                 else if d = ord CHR ''+'' then
                   (if ds' \<noteq> [] \<and> list_all is_digit ds'
                    then Some (int (int_of_digits ds')) else None)
                 else
                   (if list_all is_digit ds then Some (int (int_of_digits ds)) else None))
          else None)"

text \<open>
  \<^verbatim>\<open>Decimal(value)\<close> for a string: the string is stripped and its underscores removed;
  it is an optional sign followed by a number (digits with an optional point and an
  optional exponent, at least one digit), by \<^verbatim>\<open>Inf\<close> or \<^verbatim>\<open>Infinity\<close>, or by \<^verbatim>\<open>NaN\<close> or
  \<^verbatim>\<open>sNaN\<close> with optional digits, in any case; anything else raises
  \<^verbatim>\<open>InvalidOperation\<close> (its subclass \<^verbatim>\<open>ConversionSyntax\<close>). The digits are the ASCII
  digits: the decimal digits of other scripts, which \<^verbatim>\<open>Decimal\<close> reads as well, and its
  bound on the size of an exponent are left out.
\<close>

definition Decimal_of_string :: "pystr \<Rightarrow> py_error + decimal" where
  "Decimal_of_string v =
     (let t = filter (\<lambda>c. c \<noteq> ord CHR ''_'') (strip v);
          neg = (t \<noteq> [] \<and> hd t = ord CHR ''-'');
          u = (if t \<noteq> [] \<and> (hd t = ord CHR ''-'' \<or> hd t = ord CHR ''+'') then tl t else t);
          l = lower u
      in if l = str_of ''inf'' \<or> l = str_of ''infinity'' then Inr (Infinity neg)
         else if take 3 l = str_of ''nan'' \<and> list_all is_digit (drop 3 l) then Inr NaN
         else if take 4 l = str_of ''snan'' \<and> list_all is_digit (drop 4 l) then Inr sNaN
         else
           let ip = takeWhile is_digit u;
               r1 = dropWhile is_digit u;
               has_point = (r1 \<noteq> [] \<and> hd r1 = ord CHR ''.'');
               fp = (if has_point then takeWhile is_digit (tl r1) else []);
               r2 = (if has_point then dropWhile is_digit (tl r1) else r1)
           in if ip = [] \<and> fp = [] then Inl InvalidOperation
              else (case parse_exponent r2 of
                      None \<Rightarrow> Inl InvalidOperation
                    | Some ex \<Rightarrow>
                        Inr (Finite neg (int_of_digits (ip @ fp)) (ex - int (length fp)))))"

section \<open>Numbers passed by the caller\<close>

text \<open>
  A Python \<^verbatim>\<open>float\<close> enters the code only through \<^verbatim>\<open>value < 0\<close>, \<^verbatim>\<open>value <= 0\<close>,
  \<^verbatim>\<open>math.isfinite(value)\<close> and \<^verbatim>\<open>Decimal(str(value))\<close>. A finite float is represented
  by the sign, digits and exponent of the decimal that \<^verbatim>\<open>str\<close> prints for it (its
  \<^verbatim>\<open>repr\<close>), which is what \<^verbatim>\<open>Decimal(str(value))\<close> reads back.
\<close>

datatype pyfloat =
  FloatFinite bool nat int
| FloatInf bool
| FloatNaN

fun isfinite :: "pyfloat \<Rightarrow> bool" where
  "isfinite (FloatFinite s c e) = True"
| "isfinite _ = False"

text \<open>\<^verbatim>\<open>Decimal(str(f))\<close>: \<^verbatim>\<open>str\<close> prints \<^verbatim>\<open>inf\<close>, \<^verbatim>\<open>-inf\<close> and \<^verbatim>\<open>nan\<close> for the others.\<close>

fun Decimal_of_float_str :: "pyfloat \<Rightarrow> decimal" where
  "Decimal_of_float_str (FloatFinite s c e) = Finite s c e"
| "Decimal_of_float_str (FloatInf s) = Infinity s"
| "Decimal_of_float_str FloatNaN = NaN"

fun float_lt_zero :: "pyfloat \<Rightarrow> bool" where
  "float_lt_zero (FloatFinite s c e) = (s \<and> c \<noteq> 0)"
| "float_lt_zero (FloatInf s) = s"
| "float_lt_zero FloatNaN = False"

fun float_le_zero :: "pyfloat \<Rightarrow> bool" where
  "float_le_zero (FloatFinite s c e) = (s \<or> c = 0)"
| "float_le_zero (FloatInf s) = s"
| "float_le_zero FloatNaN = False"

text \<open>The values of type \<^verbatim>\<open>Union[int, float, str, Decimal]\<close>.\<close>

datatype pyvalue =
  PyInt int
| PyFloat pyfloat
| PyStr pystr
| PyDecimal decimal

text \<open>\<^verbatim>\<open>Decimal(i)\<close> for an \<^verbatim>\<open>int\<close>: exact, whatever the precision of the context.\<close>

definition Decimal_of_int :: "int \<Rightarrow> decimal" where
  "Decimal_of_int i = Finite (i < 0) (nat \<bar>i\<bar>) 0"

text \<open>
  \<^verbatim>\<open>value < 0\<close> and \<^verbatim>\<open>value <= 0\<close>: a \<^verbatim>\<open>str\<close> does not compare with an \<^verbatim>\<open>int\<close>
  (\<^verbatim>\<open>TypeError\<close>).
\<close>

fun py_lt_zero :: "pyvalue \<Rightarrow> py_error + bool" where
  "py_lt_zero (PyInt i) = Inr (i < 0)"
| "py_lt_zero (PyFloat f) = Inr (float_lt_zero f)"
| "py_lt_zero (PyStr s) = Inl TypeError"
| "py_lt_zero (PyDecimal d) = dec_lt_zero d"

fun py_le_zero :: "pyvalue \<Rightarrow> py_error + bool" where
  "py_le_zero (PyInt i) = Inr (i \<le> 0)"
| "py_le_zero (PyFloat f) = Inr (float_le_zero f)"
| "py_le_zero (PyStr s) = Inl TypeError"
| "py_le_zero (PyDecimal d) = dec_le_zero d"

section \<open>Units\<close>

text \<open>
  Modelled from the spec: the enum \<^verbatim>\<open>StorageUnit\<close> (storage_unit.py) is not among the
  sources. A unit is a name and a numeric value, the number of bytes in one of it (spec,
  section 3); the code reads it as \<^verbatim>\<open>Decimal(str(unit.value))\<close>. Units are compared by
  \<^verbatim>\<open>==\<close>. \<^verbatim>\<open>BYTES\<close> has the value 1 and \<^verbatim>\<open>KIB\<close> the value 1024.
  The names of the members are identifiers and are kept as \<^typ>\<open>string\<close>s.
\<close>

datatype pynum = NumInt int | NumFloat pyfloat

record StorageUnit =
  name :: string
  "value" :: pynum

fun Decimal_of_num_str :: "pynum \<Rightarrow> decimal" where
  "Decimal_of_num_str (NumInt i) = Decimal_of_int i"
| "Decimal_of_num_str (NumFloat f) = Decimal_of_float_str f"

definition BYTES :: StorageUnit where
  "BYTES = \<lparr>name = ''BYTES'', value = NumInt 1\<rparr>"

definition KIB :: StorageUnit where
  "KIB = \<lparr>name = ''KIB'', value = NumInt 1024\<rparr>"


section \<open>\<^verbatim>\<open>StorageValue\<close>\<close>

record StorageValue =
  decimal_value :: decimal
  unit :: StorageUnit

text \<open>
  \<^verbatim>\<open>StorageValue.__init__\<close> (core.py, lines 48-87). The test \<^verbatim>\<open>value < 0\<close> comes first,
  for every type of value; then the value is converted by its type. The unit is a
  \<^typ>\<open>StorageUnit\<close> by its type, so the first \<^verbatim>\<open>isinstance\<close> test passes. Only
  \<^verbatim>\<open>ValueError\<close> and \<^verbatim>\<open>TypeError\<close> of \<^verbatim>\<open>Decimal(value)\<close> are turned into \<^verbatim>\<open>ValueError\<close>.
\<close>

definition StorageValue_init :: "pyvalue \<Rightarrow> StorageUnit \<Rightarrow> py_error + StorageValue" where
  "StorageValue_init v u =
     (case py_lt_zero v of
        Inl err \<Rightarrow> Inl err
      | Inr True \<Rightarrow> Inl ValueError
      | Inr False \<Rightarrow>
          (case v of
             PyFloat f \<Rightarrow>
               if \<not> isfinite f then Inl ValueError
               else Inr \<lparr>decimal_value = Decimal_of_float_str f, unit = u\<rparr>
           | PyInt i \<Rightarrow> Inr \<lparr>decimal_value = Decimal_of_int i, unit = u\<rparr>
           | PyDecimal d \<Rightarrow> Inr \<lparr>decimal_value = d, unit = u\<rparr>
           | PyStr s \<Rightarrow>
               (case Decimal_of_string s of
                  Inl err \<Rightarrow> if err = ValueError \<or> err = TypeError then Inl ValueError else Inl err
                | Inr d \<Rightarrow> Inr \<lparr>decimal_value = d, unit = u\<rparr>)))"

text \<open>\<^verbatim>\<open>StorageValue.to_bytes\<close> (lines 89-101).\<close>

definition to_bytes :: "StorageValue \<Rightarrow> py_error + decimal" where
  "to_bytes self = dec_mul (decimal_value self) (Decimal_of_num_str (value (unit self)))"

text \<open>\<^verbatim>\<open>StorageValue.to_unit\<close> (lines 103-122).\<close>

definition to_unit :: "StorageValue \<Rightarrow> StorageUnit \<Rightarrow> py_error + decimal" where
  "to_unit self target_unit =
     (if unit self = target_unit then Inr (decimal_value self)
      else (case to_bytes self of
              Inl err \<Rightarrow> Inl err
            | Inr bytes_value \<Rightarrow> dec_div bytes_value (Decimal_of_num_str (value target_unit))))"

section \<open>\<^verbatim>\<open>ConversionEngine\<close>\<close>

text \<open>
  The engine holds the value it was built from and a dict from cache keys to results
  (lines 160-175). \<^verbatim>\<open>convert_to\<close> (lines 177-214) returns its result or exception
  together with the engine, whose cache it may have extended.
\<close>

record ConversionEngine =
  storage_value :: StorageValue
  conversion_cache :: "string \<rightharpoonup> StorageValue"

definition ConversionEngine_init :: "StorageValue \<Rightarrow> ConversionEngine" where
  "ConversionEngine_init v = \<lparr>storage_value = v, conversion_cache = Map.empty\<rparr>"

definition cache_key :: "StorageUnit \<Rightarrow> StorageUnit \<Rightarrow> string" where
  "cache_key u t = name u @ ''_to_'' @ name t"

definition convert_to ::
  "ConversionEngine \<Rightarrow> StorageUnit \<Rightarrow> (py_error + StorageValue) \<times> ConversionEngine" where
  "convert_to self target_unit =
     (if unit (storage_value self) = target_unit then (Inr (storage_value self), self)
      else
        let key = cache_key (unit (storage_value self)) target_unit in
        case conversion_cache self key of
          Some cached \<Rightarrow> (Inr cached, self)
        | None \<Rightarrow>
            (case to_bytes (storage_value self) of
               Inl err \<Rightarrow> (Inl err, self)
             | Inr bytes_value \<Rightarrow>
                 (case dec_div bytes_value (Decimal_of_num_str (value target_unit)) of
                    Inl err \<Rightarrow> (Inl err, self)
                  | Inr target_decimal_value \<Rightarrow>
                      (case StorageValue_init (PyDecimal target_decimal_value) target_unit of
                         Inl err \<Rightarrow> (Inl err, self)
                       | Inr result \<Rightarrow>
                           (Inr result,
                            self\<lparr>conversion_cache := (conversion_cache self)(key \<mapsto> result)\<rparr>)))))"

section \<open>\<^verbatim>\<open>StringParser\<close>\<close>

text \<open>
  The compiled pattern \<^verbatim>\<open>^([0-9]*\.?[0-9]+)\s*([a-z]*)$\<close> with \<^verbatim>\<open>re.IGNORECASE\<close>
  (line 327). Group 1 is made of digits and points only and is followed by a space, a
  letter or the end, so it is the longest prefix of digits and points; it must be digits,
  or digits, a point and at least one digit. Then come spaces and letters; \<^verbatim>\<open>$\<close> matches
  at the end and before a final newline.
\<close>

definition numchar :: "codepoint \<Rightarrow> bool" where
  "numchar c = (is_digit c \<or> c = ord CHR ''.'')"

definition is_number :: "pystr \<Rightarrow> bool" where
  "is_number num =
     (let a = takeWhile is_digit num; r = dropWhile is_digit num
      in (a \<noteq> [] \<and> r = []) \<or>
         (r \<noteq> [] \<and> hd r = ord CHR ''.'' \<and> tl r \<noteq> [] \<and> list_all is_digit (tl r)))"

definition pattern_match :: "pystr \<Rightarrow> (pystr \<times> pystr) option" where
  "pattern_match s =
     (let num = takeWhile numchar s;
          r1 = dropWhile numchar s;
          r2 = dropWhile is_space r1;
          letters = takeWhile is_letter r2;
          r3 = dropWhile is_letter r2
      in if is_number num \<and> (r3 = [] \<or> r3 = [10]) then Some (num, letters) else None)"

text \<open>
  The parser holds the alias table \<^verbatim>\<open>StorageUnit.get_unit_aliases()\<close> (line 328), a dict
  from lower-case alias to unit; the table itself belongs to the enum and is a field here.
\<close>

record StringParser =
  unit_aliases :: "pystr \<rightharpoonup> StorageUnit"

text \<open>
  \<^verbatim>\<open>StringParser.parse\<close> (lines 330-406); \<^verbatim>\<open>default_unit\<close> is \<^verbatim>\<open>None\<close> when the caller
  gives none. The input is a \<^verbatim>\<open>str\<close> by its type.
\<close>

definition parse ::
  "StringParser \<Rightarrow> pystr \<Rightarrow> StorageUnit option \<Rightarrow> py_error + (decimal \<times> StorageUnit)" where
  "parse self string default_unit =
     (if strip string = [] then Inl ValueError
      else
        let default_unit' = (case default_unit of None \<Rightarrow> BYTES | Some u \<Rightarrow> u);
            normalized = replace (ord CHR '','') (ord CHR ''.'') (lower (strip string))
        in case pattern_match normalized of
             None \<Rightarrow> Inl ValueError
           | Some (value_str, unit_str) \<Rightarrow>
               (case Decimal_of_string value_str of
                  Inl err \<Rightarrow> if err = ValueError \<or> err = TypeError then Inl ValueError else Inl err
                | Inr v \<Rightarrow>
                    Inr (v, case unit_aliases self (lower unit_str) of
                              None \<Rightarrow> default_unit'
                            | Some u \<Rightarrow> u)))"


section \<open>\<^verbatim>\<open>ArithmeticEngine\<close>\<close>

record ArithmeticEngine =
  left_value :: StorageValue

text \<open>
  The conversion of a numeric argument (lines 625-629, 661-665): a float through
  \<^verbatim>\<open>Decimal(str(x))\<close>, an int through \<^verbatim>\<open>Decimal(x)\<close>, a Decimal as it is.
\<close>

fun Decimal_of_factor :: "pyvalue \<Rightarrow> decimal" where
  "Decimal_of_factor (PyFloat f) = Decimal_of_float_str f"
| "Decimal_of_factor (PyInt i) = Decimal_of_int i"
| "Decimal_of_factor (PyDecimal d) = d"
| "Decimal_of_factor (PyStr s) = NaN"

fun is_numeric :: "pyvalue \<Rightarrow> bool" where
  "is_numeric (PyStr s) = False"
| "is_numeric _ = True"

text \<open>\<^verbatim>\<open>ArithmeticEngine.add\<close> (lines 520-554).\<close>

definition add :: "ArithmeticEngine \<Rightarrow> StorageValue \<Rightarrow> py_error + StorageValue" where
  "add self right_value =
     (if unit (left_value self) = unit right_value then
        (case dec_add (decimal_value (left_value self)) (decimal_value right_value) of
           Inl err \<Rightarrow> Inl err
         | Inr total_value \<Rightarrow> StorageValue_init (PyDecimal total_value) (unit (left_value self)))
      else
        (case to_bytes (left_value self) of
           Inl err \<Rightarrow> Inl err
         | Inr left_bytes \<Rightarrow>
             (case to_bytes right_value of
                Inl err \<Rightarrow> Inl err
              | Inr right_bytes \<Rightarrow>
                  (case dec_add left_bytes right_bytes of
                     Inl err \<Rightarrow> Inl err
                   | Inr total_bytes \<Rightarrow> StorageValue_init (PyDecimal total_bytes) BYTES))))"

text \<open>\<^verbatim>\<open>ArithmeticEngine.subtract\<close> (lines 556-596).\<close>

definition subtract :: "ArithmeticEngine \<Rightarrow> StorageValue \<Rightarrow> py_error + StorageValue" where
  "subtract self right_value =
     (if unit (left_value self) = unit right_value then
        (case dec_sub (decimal_value (left_value self)) (decimal_value right_value) of
           Inl err \<Rightarrow> Inl err
         | Inr result_value \<Rightarrow>
             (case dec_lt_zero result_value of
                Inl err \<Rightarrow> Inl err
              | Inr True \<Rightarrow> Inl ValueError
              | Inr False \<Rightarrow> StorageValue_init (PyDecimal result_value) (unit (left_value self))))
      else
        (case to_bytes (left_value self) of
           Inl err \<Rightarrow> Inl err
         | Inr left_bytes \<Rightarrow>
             (case to_bytes right_value of
                Inl err \<Rightarrow> Inl err
              | Inr right_bytes \<Rightarrow>
                  (case dec_sub left_bytes right_bytes of
                     Inl err \<Rightarrow> Inl err
                   | Inr result_bytes \<Rightarrow>
                       (case dec_lt_zero result_bytes of
                          Inl err \<Rightarrow> Inl err
                        | Inr True \<Rightarrow> Inl ValueError
                        | Inr False \<Rightarrow> StorageValue_init (PyDecimal result_bytes) BYTES)))))"

text \<open>\<^verbatim>\<open>ArithmeticEngine.multiply\<close> (lines 598-632).\<close>

definition multiply :: "ArithmeticEngine \<Rightarrow> pyvalue \<Rightarrow> py_error + StorageValue" where
  "multiply self factor =
     (if \<not> is_numeric factor then Inl TypeError
      else (case py_lt_zero factor of
              Inl err \<Rightarrow> Inl err
            | Inr True \<Rightarrow> Inl ValueError
            | Inr False \<Rightarrow>
                (case dec_mul (decimal_value (left_value self)) (Decimal_of_factor factor) of
                   Inl err \<Rightarrow> Inl err
                 | Inr result_value \<Rightarrow>
                     StorageValue_init (PyDecimal result_value) (unit (left_value self)))))"

text \<open>
  \<^verbatim>\<open>divide\<close> (lines 634-668), \<^verbatim>\<open>floor_divide\<close> (lines 704-738) and \<^verbatim>\<open>modulo\<close>
  (lines 740-774) differ in the operator only (\<open>divide_op\<close> and \<open>modulo_op\<close> here: the names
  \<open>divide\<close> and \<open>modulo\<close> are taken).
\<close>

definition divide_op :: "ArithmeticEngine \<Rightarrow> pyvalue \<Rightarrow> py_error + StorageValue" where
  "divide_op self divisor =
     (if \<not> is_numeric divisor then Inl TypeError
      else (case py_le_zero divisor of
              Inl err \<Rightarrow> Inl err
            | Inr True \<Rightarrow> Inl ValueError
            | Inr False \<Rightarrow>
                (case dec_div (decimal_value (left_value self)) (Decimal_of_factor divisor) of
                   Inl err \<Rightarrow> Inl err
                 | Inr result_value \<Rightarrow>
                     StorageValue_init (PyDecimal result_value) (unit (left_value self)))))"

definition floor_divide :: "ArithmeticEngine \<Rightarrow> pyvalue \<Rightarrow> py_error + StorageValue" where
  "floor_divide self divisor =
     (if \<not> is_numeric divisor then Inl TypeError
      else (case py_le_zero divisor of
              Inl err \<Rightarrow> Inl err
            | Inr True \<Rightarrow> Inl ValueError
            | Inr False \<Rightarrow>
                (case dec_floordiv (decimal_value (left_value self)) (Decimal_of_factor divisor) of
                   Inl err \<Rightarrow> Inl err
                 | Inr result_value \<Rightarrow>
                     StorageValue_init (PyDecimal result_value) (unit (left_value self)))))"

definition modulo_op :: "ArithmeticEngine \<Rightarrow> pyvalue \<Rightarrow> py_error + StorageValue" where
  "modulo_op self divisor =
     (if \<not> is_numeric divisor then Inl TypeError
      else (case py_le_zero divisor of
              Inl err \<Rightarrow> Inl err
            | Inr True \<Rightarrow> Inl ValueError
            | Inr False \<Rightarrow>
                (case dec_mod (decimal_value (left_value self)) (Decimal_of_factor divisor) of
                   Inl err \<Rightarrow> Inl err
                 | Inr result_value \<Rightarrow>
                     StorageValue_init (PyDecimal result_value) (unit (left_value self)))))"

section \<open>\<^verbatim>\<open>PerformanceManager\<close>: the decimal cache\<close>

text \<open>
  The decimal cache is a dict, which keeps its keys in insertion order: a list of
  key-value pairs with distinct keys, the oldest first. The counters of
  \<^verbatim>\<open>_stats\<close> that \<^verbatim>\<open>get_cached_decimal\<close> touches are fields.
\<close>

record PerformanceManager =
  max_cache_size :: int
  decimal_cache :: "(pystr \<times> decimal) list"
  decimal_cache_hits :: nat
  decimal_cache_misses :: nat


text \<open>\<^verbatim>\<open>del d[k]\<close> and \<^verbatim>\<open>d[k] = v\<close> for a key that \<^verbatim>\<open>d\<close> does not hold.\<close>

definition dict_del :: "pystr \<Rightarrow> (pystr \<times> decimal) list \<Rightarrow> (pystr \<times> decimal) list" where
  "dict_del k d = filter (\<lambda>kv. fst kv \<noteq> k) d"

definition dict_insert_new ::
  "pystr \<Rightarrow> decimal \<Rightarrow> (pystr \<times> decimal) list \<Rightarrow> (pystr \<times> decimal) list" where
  "dict_insert_new k v d = d @ [(k, v)]"

text \<open>
  \<^verbatim>\<open>PerformanceManager.get_cached_decimal\<close> (lines 819-854). The result or exception
  comes with the manager as the call leaves it: a miss is counted before
  \<^verbatim>\<open>Decimal(value_str)\<close> can raise, and \<^verbatim>\<open>next(iter(d))\<close> raises \<^verbatim>\<open>StopIteration\<close> on an
  empty dict.
\<close>

definition get_cached_decimal ::
  "PerformanceManager \<Rightarrow> pystr \<Rightarrow> (py_error + decimal) \<times> PerformanceManager" where
  "get_cached_decimal self value_str =
     (case map_of (decimal_cache self) value_str of
        Some cached \<Rightarrow> (Inr cached, self\<lparr>decimal_cache_hits := decimal_cache_hits self + 1\<rparr>)
      | None \<Rightarrow>
          let self1 = self\<lparr>decimal_cache_misses := decimal_cache_misses self + 1\<rparr> in
          case Decimal_of_string value_str of
            Inl err \<Rightarrow> (Inl err, self1)
          | Inr new_value \<Rightarrow>
              if int (length (decimal_cache self1)) \<ge> max_cache_size self1 then
                (case decimal_cache self1 of
                   [] \<Rightarrow> (Inl StopIteration, self1)
                 | (oldest_key, oldest) # rest \<Rightarrow>
                     (Inr new_value,
                      self1\<lparr>decimal_cache :=
                        dict_insert_new value_str new_value
                          (dict_del oldest_key (decimal_cache self1))\<rparr>))
              else
                (Inr new_value,
                 self1\<lparr>decimal_cache :=
                   dict_insert_new value_str new_value (decimal_cache self1)\<rparr>))"

text \<open>A sequence of calls, dropping the results: the manager after the last call.\<close>

fun run_calls :: "PerformanceManager \<Rightarrow> pystr list \<Rightarrow> PerformanceManager" where
  "run_calls pm [] = pm"
| "run_calls pm (s # ss) = run_calls (snd (get_cached_decimal pm s)) ss"



section \<open>Properties the claims are stated with\<close>

text \<open>
  The magnitude of a value is at least zero: Python's \<^verbatim>\<open>d >= 0\<close> is true. A negative
  zero counts as zero; a NaN is not at least zero.
\<close>

fun ge_zero :: "decimal \<Rightarrow> bool" where
  "ge_zero (Finite s c e) = (\<not> s \<or> c = 0)"
| "ge_zero (Infinity s) = (\<not> s)"
| "ge_zero NaN = False"
| "ge_zero sNaN = False"

text \<open>
  A conversion engine whose bound value and whose cached results all have a magnitude of
  at least zero.
\<close>

definition engine_ok :: "ConversionEngine \<Rightarrow> bool" where
  "engine_ok e =
     (ge_zero (decimal_value (storage_value e)) \<and>
      (\<forall>v \<in> ran (conversion_cache e). ge_zero (decimal_value v)))"








text \<open>A unit whose value is a finite number.\<close>

definition finite_unit :: "StorageUnit \<Rightarrow> bool" where
  "finite_unit u = is_Finite (Decimal_of_num_str (value u))"


section \<open>Digits and rounding\<close>

lemma ndigits_eqI: "10 ^ k \<le> n \<Longrightarrow> n < 10 ^ Suc k \<Longrightarrow> ndigits n = Suc k"
proof (induction k arbitrary: n)
  case 0
  then show ?case by (simp add: ndigits.simps)
next
  case (Suc k)
  have "(1::nat) \<le> 10 ^ k" by simp
  then have "(10::nat) \<le> 10 ^ Suc k" by simp
  with Suc.prems(1) have big: "\<not> n < 10" by linarith
  from Suc.prems have "10 ^ k \<le> n div 10" "n div 10 < 10 ^ Suc k"
    by (simp_all add: less_mult_imp_div_less div_le_mono le_div_geq mult.commute)
  with Suc.IH [of "n div 10"] big show ?case by (subst ndigits.simps) simp
qed

lemma ndigits_upper: "n < 10 ^ ndigits n"
proof (induction n rule: ndigits.induct)
  case (1 n)
  show ?case
  proof (cases "n < 10")
    case True
    then show ?thesis by (subst ndigits.simps) simp
  next
    case False
    with 1 have "n div 10 < 10 ^ ndigits (n div 10)" by simp
    then have "n < 10 * 10 ^ ndigits (n div 10)" by (simp add: div_less_iff_less_mult)
    with False show ?thesis by (subst ndigits.simps) simp
  qed
qed

lemma ndigits_lower: "0 < n \<Longrightarrow> 10 ^ (ndigits n - 1) \<le> n"
proof (induction n rule: ndigits.induct)
  case (1 n)
  show ?case
  proof (cases "n < 10")
    case True
    with 1(2) show ?thesis by (subst ndigits.simps) simp
  next
    case False
    then have "0 < n div 10" by (simp add: div_greater_zero_iff)
    with 1 False have "10 ^ (ndigits (n div 10) - 1) \<le> n div 10" by simp
    then have "10 * 10 ^ (ndigits (n div 10) - 1) \<le> n" by (simp add: le_div_geq)
    moreover have "0 < ndigits (n div 10)" by (subst ndigits.simps) simp
    ultimately show ?thesis using False
      by (subst ndigits.simps) (simp add: power_Suc [symmetric] del: power_Suc)
  qed
qed

lemma ndigits_gt_iff: "0 < k \<Longrightarrow> k < ndigits n \<longleftrightarrow> 10 ^ k \<le> n"
proof
  assume "0 < k" "k < ndigits n"
  then have "0 < n" by (cases "n = 0") (simp_all add: ndigits.simps)
  from ndigits_lower [OF this] have a: "10 ^ (ndigits n - 1) \<le> n" .
  from \<open>k < ndigits n\<close> have "(10::nat) ^ k \<le> 10 ^ (ndigits n - 1)"
    by (intro power_increasing) auto
  then show "10 ^ k \<le> n" using a by (rule order_trans)
next
  assume "0 < k" "10 ^ k \<le> n"
  with ndigits_upper [of n] have "(10::nat) ^ k < 10 ^ ndigits n" by linarith
  then show "k < ndigits n" by (simp add: power_strict_increasing_iff)
qed

text \<open>\<^verbatim>\<open>_fix\<close> with the number of digits of the coefficient given.\<close>

lemma dec_fix_digits:
  assumes "10 ^ k \<le> c" "c < 10 ^ Suc k"
  shows "dec_fix s c e =
     (let exp_min0 = int (Suc k) + e - int prec in
        if exp_min0 > Etop then Inl Overflow
        else
          let exp_min = max exp_min0 Etiny in
          if e < exp_min then
            (let c' = round_half_even c (nat (exp_min - e)) in
             if 10 ^ prec \<le> c' then
               (if exp_min + 1 > Etop then Inl Overflow
                else Inr (Finite s (c' div 10) (exp_min + 1)))
             else Inr (Finite s c' exp_min))
          else Inr (Finite s c e))"
proof -
  from assms have "c \<noteq> 0" by auto
  moreover have "ndigits c = Suc k" using assms by (rule ndigits_eqI)
  moreover have "\<And>x. prec < ndigits x \<longleftrightarrow> 10 ^ prec \<le> x"
    by (rule ndigits_gt_iff) (simp add: prec_def)
  ultimately show ?thesis by (simp add: dec_fix_def Let_def)
qed

text \<open>The loop that strips zeros, with the number of zeros it strips given.\<close>

lemma strip_zeros_eval:
  assumes "k \<le> n" "c mod 10 ^ k = 0" "k = n \<or> (c div 10 ^ k) mod 10 \<noteq> 0"
  shows "strip_zeros n c e = (c div 10 ^ k, e + int k)"
  using assms
proof (induction k arbitrary: n c e)
  case 0
  then show ?case by (cases n) auto
next
  case (Suc k)
  from Suc.prems(1) obtain n' where n: "n = Suc n'" and kn: "k \<le> n'"
    by (cases n) auto
  from Suc.prems(2) have "10 ^ Suc k dvd c" by (simp add: dvd_eq_mod_eq_0)
  then obtain m where c: "c = 10 * (10 ^ k * m)" by (auto elim: dvdE simp: mult.assoc)
  have d: "c div 10 = 10 ^ k * m" using c by simp
  have dd: "c div 10 ^ Suc k = (c div 10) div 10 ^ k"
    by (simp add: div_mult2_eq)
  have "strip_zeros n' (c div 10) (e + 1) = ((c div 10) div 10 ^ k, e + 1 + int k)"
  proof (rule Suc.IH)
    show "k \<le> n'" by (rule kn)
    show "(c div 10) mod 10 ^ k = 0" using d by simp
    show "k = n' \<or> (c div 10) div 10 ^ k mod 10 \<noteq> 0"
      using Suc.prems(3) n dd by auto
  qed
  moreover have "c mod 10 = 0" using c by simp
  ultimately show ?case using n dd by simp
qed

lemmas context_defs = prec_def Etop_def Etiny_def Emax_def Emin_def

text \<open>A coefficient of at most \<open>prec\<close> digits with an exponent in range is left as it is.\<close>

lemma dec_fix_small:
  assumes "c < 10 ^ prec" "Etiny \<le> e" "e \<le> Etop"
  shows "dec_fix s c e = Inr (Finite s c e)"
proof (cases "c = 0")
  case True
  with assms show ?thesis by (simp add: dec_fix_def context_defs)
next
  case False
  have "\<not> prec < ndigits c"
    using assms(1) ndigits_gt_iff [of prec c] by (simp add: prec_def)
  then have m: "int (ndigits c) + e - int prec \<le> e" by simp
  with assms have a: "\<not> int (ndigits c) + e - int prec > Etop"
    and b: "\<not> e < max (int (ndigits c) + e - int prec) Etiny"
    by simp_all
  show ?thesis
    unfolding dec_fix_def Let_def
    by (simp only: False a b if_False)
qed


section \<open>Construction\<close>

text \<open>
  C1. The constructor is claimed to accept every non-negative decimal string and to
  reject exactly the negative, non-finite and unparseable inputs with a
  \<^verbatim>\<open>ValueError\<close>. The code compares \<^verbatim>\<open>value < 0\<close> before it looks at the type of the
  value, so every string, \<^verbatim>\<open>"1.5"\<close> of the docstring included, raises \<^verbatim>\<open>TypeError\<close> and
  the branch for strings is never reached; and a Decimal is stored without the
  finiteness test that a float gets, so \<^verbatim>\<open>Decimal('Infinity')\<close> is accepted.
\<close>

theorem StorageValue_init_string_and_infinity:
  "StorageValue_init (PyStr (str_of ''1.5'')) u = Inl TypeError \<and>
   StorageValue_init (PyStr s) u = Inl TypeError \<and>
   StorageValue_init (PyDecimal (Infinity False)) u =
     Inr \<lparr>decimal_value = Infinity False, unit = u\<rparr> \<and>
   StorageValue_init (PyFloat (FloatInf False)) u = Inl ValueError"
  by (simp add: StorageValue_init_def)


section \<open>Magnitudes are never negative\<close>

lemma dec_lt_zero_False: "dec_lt_zero d = Inr False \<Longrightarrow> ge_zero d"
  by (cases d) auto

text \<open>Whatever the constructor returns has a magnitude of at least zero, and the unit given.\<close>

lemma StorageValue_init_Inr:
  assumes "StorageValue_init x u = Inr r"
  shows "ge_zero (decimal_value r) \<and> unit r = u"
proof (cases x)
  case (PyInt i)
  with assms show ?thesis
    by (auto simp: StorageValue_init_def Decimal_of_int_def split: if_splits bool.splits)
next
  case (PyFloat f)
  with assms show ?thesis
    by (cases f) (auto simp: StorageValue_init_def split: if_splits bool.splits)
next
  case (PyStr s)
  with assms show ?thesis by (simp add: StorageValue_init_def)
next
  case (PyDecimal d)
  with assms show ?thesis
    by (auto simp: StorageValue_init_def dec_lt_zero_False split: sum.splits bool.splits)
qed

lemma add_Inr:
  "add a v = Inr r \<Longrightarrow> ge_zero (decimal_value r)"
  by (auto simp: add_def dest: StorageValue_init_Inr split: if_splits sum.splits)

lemma subtract_Inr:
  "subtract a v = Inr r \<Longrightarrow> ge_zero (decimal_value r)"
  by (auto simp: subtract_def dest: StorageValue_init_Inr
      split: if_splits sum.splits bool.splits)

lemma multiply_Inr:
  "multiply a v = Inr r \<Longrightarrow> ge_zero (decimal_value r) \<and> unit r = unit (left_value a)"
  by (auto simp: multiply_def dest: StorageValue_init_Inr
      split: if_splits sum.splits bool.splits)

lemma divide_op_Inr:
  "divide_op a v = Inr r \<Longrightarrow> ge_zero (decimal_value r) \<and> unit r = unit (left_value a)"
  by (auto simp: divide_op_def dest: StorageValue_init_Inr
      split: if_splits sum.splits bool.splits)

lemma floor_divide_Inr:
  "floor_divide a v = Inr r \<Longrightarrow> ge_zero (decimal_value r) \<and> unit r = unit (left_value a)"
  by (auto simp: floor_divide_def dest: StorageValue_init_Inr
      split: if_splits sum.splits bool.splits)

lemma modulo_op_Inr:
  "modulo_op a v = Inr r \<Longrightarrow> ge_zero (decimal_value r) \<and> unit r = unit (left_value a)"
  by (auto simp: modulo_op_def dest: StorageValue_init_Inr
      split: if_splits sum.splits bool.splits)

text \<open>
  A conversion returns the bound value, a cached result or a newly constructed value, and
  keeps the engine in order.
\<close>

lemma convert_to_Inr:
  assumes ok: "engine_ok e" and c: "convert_to e t = (Inr r, e')"
  shows "ge_zero (decimal_value r) \<and> engine_ok e'"
proof (cases "unit (storage_value e) = t")
  case True
  with ok c show ?thesis by (auto simp: convert_to_def engine_ok_def)
next
  case False
  show ?thesis
  proof (cases "conversion_cache e (cache_key (unit (storage_value e)) t)")
    case (Some cached)
    with False ok c show ?thesis by (auto simp: convert_to_def engine_ok_def ran_def)
  next
    case None
    with False c obtain d where
      i: "StorageValue_init (PyDecimal d) t = Inr r" and
      e': "e' = e\<lparr>conversion_cache :=
             (conversion_cache e)(cache_key (unit (storage_value e)) t \<mapsto> r)\<rparr>"
      by (auto simp: convert_to_def Let_def split: sum.splits)
    from i have "ge_zero (decimal_value r)" using StorageValue_init_Inr by blast
    with ok e' show ?thesis by (auto simp: engine_ok_def ran_def split: if_splits)
  qed
qed

lemma convert_to_Inl:
  "convert_to e t = (Inl err, e') \<Longrightarrow> e' = e"
  by (auto simp: convert_to_def Let_def split: if_splits option.splits sum.splits)

lemma engine_ok_init:
  "ge_zero (decimal_value v) \<Longrightarrow> engine_ok (ConversionEngine_init v)"
  by (simp add: engine_ok_def ConversionEngine_init_def)

text \<open>The subtraction raises \<^verbatim>\<open>ValueError\<close> whenever the decimal difference is below zero.\<close>

lemma subtract_negative_same_unit:
  assumes "unit (left_value a) = unit v"
    and "dec_sub (decimal_value (left_value a)) (decimal_value v) = Inr d"
    and "dec_lt_zero d = Inr True"
  shows "subtract a v = Inl ValueError"
  using assms by (simp add: subtract_def)

lemma subtract_negative_bytes:
  assumes "unit (left_value a) \<noteq> unit v"
    and "to_bytes (left_value a) = Inr lb" and "to_bytes v = Inr rb"
    and "dec_sub lb rb = Inr d"
    and "dec_lt_zero d = Inr True"
  shows "subtract a v = Inl ValueError"
  using assms by (simp add: subtract_def)

text \<open>The exceptions that the decimal arithmetic and the subtraction can raise.\<close>

lemma dec_fix_Inl: "dec_fix s c e = Inl err \<Longrightarrow> err = Overflow"
  by (auto simp: dec_fix_def Let_def split: if_splits)

lemma dec_fix_Inr: "dec_fix s c e = Inr r \<Longrightarrow> \<exists>c' e'. r = Finite s c' e'"
  by (auto simp: dec_fix_def Let_def split: if_splits)

lemma dec_mul_Inl: "dec_mul a b = Inl err \<Longrightarrow> err = Overflow \<or> err = InvalidOperation"
  by (cases a; cases b) (auto dest: dec_fix_Inl split: if_splits)

lemma dec_add_Inl: "dec_add a b = Inl err \<Longrightarrow> err = Overflow \<or> err = InvalidOperation"
  by (cases a; cases b) (auto simp: Let_def dest: dec_fix_Inl split: if_splits)

lemma dec_sub_Inl: "dec_sub a b = Inl err \<Longrightarrow> err = Overflow \<or> err = InvalidOperation"
  unfolding dec_sub_def by (rule dec_add_Inl)

lemma dec_lt_zero_Inl: "dec_lt_zero d = Inl err \<Longrightarrow> err = InvalidOperation"
  by (cases d) auto

lemma to_bytes_Inl: "to_bytes v = Inl err \<Longrightarrow> err = Overflow \<or> err = InvalidOperation"
  unfolding to_bytes_def by (rule dec_mul_Inl)

lemma StorageValue_init_not_negative:
  "dec_lt_zero d = Inr False \<Longrightarrow>
   StorageValue_init (PyDecimal d) u = Inr \<lparr>decimal_value = d, unit = u\<rparr>"
  by (simp add: StorageValue_init_def)

lemma subtract_outcomes:
  "(\<exists>r. subtract a v = Inr r \<and> ge_zero (decimal_value r)) \<or>
   subtract a v = Inl ValueError \<or> subtract a v = Inl Overflow \<or>
   subtract a v = Inl InvalidOperation"
proof (cases "subtract a v")
  case (Inr r)
  then show ?thesis by (simp add: subtract_Inr)
next
  case (Inl err)
  then have "err = ValueError \<or> err = Overflow \<or> err = InvalidOperation"
    by (auto simp: subtract_def StorageValue_init_not_negative
        dest: dec_sub_Inl dec_lt_zero_Inl to_bytes_Inl
        split: if_splits sum.splits bool.splits)
  with Inl show ?thesis by auto
qed

text \<open>Finite operands and finite unit values: no InvalidOperation.\<close>

lemma dec_mul_finite_Inl:
  "dec_mul (Finite s c e) (Finite t d f) = Inl err \<Longrightarrow> err = Overflow"
  by (auto dest: dec_fix_Inl)

lemma dec_mul_finite_Inr:
  "dec_mul (Finite s c e) (Finite t d f) = Inr r \<Longrightarrow> is_Finite r"
  by (auto dest: dec_fix_Inr)

lemma dec_sub_finite_Inl:
  "is_Finite a \<Longrightarrow> is_Finite b \<Longrightarrow> dec_sub a b = Inl err \<Longrightarrow> err = Overflow"
  by (cases a; cases b) (auto simp: dec_sub_def Let_def dest: dec_fix_Inl)

lemma dec_sub_finite_Inr:
  "is_Finite a \<Longrightarrow> is_Finite b \<Longrightarrow> dec_sub a b = Inr r \<Longrightarrow> is_Finite r"
  by (cases a; cases b) (auto simp: dec_sub_def Let_def dest: dec_fix_Inr)

lemma dec_lt_zero_finite: "is_Finite d \<Longrightarrow> \<exists>b. dec_lt_zero d = Inr b"
  by (cases d) auto

lemma to_bytes_finite_Inl:
  assumes "is_Finite (decimal_value v)" "finite_unit (unit v)" "to_bytes v = Inl err"
  shows "err = Overflow"
proof -
  from assms(1,2) obtain s c e t d f where "decimal_value v = Finite s c e"
    "Decimal_of_num_str (value (unit v)) = Finite t d f"
    by (auto simp: finite_unit_def is_Finite_def)
  with assms(3) show ?thesis
    using dec_mul_finite_Inl by (simp add: to_bytes_def)
qed

lemma to_bytes_finite_Inr:
  assumes "is_Finite (decimal_value v)" "finite_unit (unit v)" "to_bytes v = Inr r"
  shows "is_Finite r"
proof -
  from assms(1,2) obtain s c e t d f where "decimal_value v = Finite s c e"
    "Decimal_of_num_str (value (unit v)) = Finite t d f"
    by (auto simp: finite_unit_def is_Finite_def)
  with assms(3) show ?thesis
    using dec_mul_finite_Inr by (simp add: to_bytes_def)
qed

lemma difference_finite_Inl:
  assumes "is_Finite x" "is_Finite y"
    and "(case dec_sub x y of
           Inl err \<Rightarrow> Inl err
         | Inr d \<Rightarrow>
             (case dec_lt_zero d of
                Inl err \<Rightarrow> Inl err
              | Inr True \<Rightarrow> Inl ValueError
              | Inr False \<Rightarrow> StorageValue_init (PyDecimal d) u)) = Inl err"
  shows "err = ValueError \<or> err = Overflow"
proof (cases "dec_sub x y")
  case (Inl e)
  with assms show ?thesis by (auto dest: dec_sub_finite_Inl)
next
  case (Inr d)
  with assms(1,2) have "is_Finite d" by (rule dec_sub_finite_Inr)
  then obtain b where "dec_lt_zero d = Inr b" using dec_lt_zero_finite by blast
  with Inr assms(3) show ?thesis
    by (cases b) (simp_all add: StorageValue_init_not_negative)
qed

lemma subtract_finite_outcomes:
  assumes "is_Finite (decimal_value (left_value a))" "is_Finite (decimal_value v)"
    "finite_unit (unit (left_value a))" "finite_unit (unit v)"
  shows "(\<exists>r. subtract a v = Inr r \<and> ge_zero (decimal_value r)) \<or>
   subtract a v = Inl ValueError \<or> subtract a v = Inl Overflow"
proof (cases "subtract a v")
  case (Inr r)
  then show ?thesis by (simp add: subtract_Inr)
next
  case (Inl err)
  have "err = ValueError \<or> err = Overflow"
  proof (cases "unit (left_value a) = unit v")
    case True
    with Inl show ?thesis
      using difference_finite_Inl [OF assms(1,2)] by (simp add: subtract_def)
  next
    case False
    show ?thesis
    proof (cases "to_bytes (left_value a)")
      case l: (Inl e)
      with Inl False to_bytes_finite_Inl [OF assms(1,3) l] show ?thesis
        by (simp add: subtract_def)
    next
      case l: (Inr lb)
      show ?thesis
      proof (cases "to_bytes v")
        case r: (Inl e)
        with Inl False l to_bytes_finite_Inl [OF assms(2,4) r] show ?thesis
          by (simp add: subtract_def)
      next
        case r: (Inr rb)
        from to_bytes_finite_Inr [OF assms(1,3) l] to_bytes_finite_Inr [OF assms(2,4) r]
        have "is_Finite lb" "is_Finite rb" .
        from difference_finite_Inl [OF this] Inl False l r show ?thesis
          by (simp add: subtract_def)
      qed
    qed
  qed
  with Inl show ?thesis by auto
qed

lemmas eval_defs = StorageValue_init_def to_bytes_def Decimal_of_int_def BYTES_def KIB_def
  context_defs Let_def signed_def dec_sub_def dec_fix_small

text \<open>
  C3 as stated fails in its second half: on operands with magnitudes of at least zero,
  \<^verbatim>\<open>subtract\<close> can fail with an exception that is not the \<^verbatim>\<open>ValueError\<close> of a negative
  result. The byte-equivalent of \<^verbatim>\<open>Decimal('1E999999')\<close> KIB is above \<open>Emax\<close>, and the
  multiplication in \<^verbatim>\<open>to_bytes\<close> raises \<^verbatim>\<open>Overflow\<close>.
\<close>

theorem subtract_overflow_counterexample:
  "ge_zero (Finite False 1 999999) \<and> ge_zero (Finite False 1 0) \<and>
   subtract \<lparr>left_value = \<lparr>decimal_value = Finite False 1 999999, unit = KIB\<rparr>\<rparr>
     \<lparr>decimal_value = Finite False 1 0, unit = BYTES\<rparr> = Inl Overflow"
  by (simp add: subtract_def to_bytes_def KIB_def BYTES_def Decimal_of_int_def
      dec_fix_digits [of 3] context_defs)

text \<open>
  C3, amended. Every StorageValue that an operation produces has a magnitude of at least
  zero: the constructor; a conversion by an engine in order (a fresh engine on a value
  with a magnitude of at least zero is in order, and conversions keep it so); \<^verbatim>\<open>add\<close>,
  \<^verbatim>\<open>subtract\<close>, \<^verbatim>\<open>multiply\<close>, \<^verbatim>\<open>divide\<close>, \<^verbatim>\<open>floor_divide\<close> and \<^verbatim>\<open>modulo\<close>. \<^verbatim>\<open>subtract\<close>
  never returns a negative magnitude: it returns a value with a magnitude of at least
  zero, or raises \<^verbatim>\<open>ValueError\<close> (it does whenever the decimal difference it computed, of
  the magnitudes in a common unit, of the byte-equivalents otherwise, is below zero), or
  raises an exception of the decimal arithmetic, \<^verbatim>\<open>Overflow\<close> or \<^verbatim>\<open>InvalidOperation\<close>. With
  finite magnitudes and finite unit values, \<^verbatim>\<open>Overflow\<close> is the only such exception.
\<close>

theorem magnitude_never_negative:
  "(StorageValue_init x u = Inr r1 \<longrightarrow> ge_zero (decimal_value r1)) \<and>
   (ge_zero (decimal_value v0) \<longrightarrow> engine_ok (ConversionEngine_init v0)) \<and>
   (engine_ok e \<and> convert_to e t = (Inr r2, e') \<longrightarrow>
      ge_zero (decimal_value r2) \<and> engine_ok e') \<and>
   (add a v1 = Inr r3 \<longrightarrow> ge_zero (decimal_value r3)) \<and>
   (subtract a v2 = Inr r4 \<longrightarrow> ge_zero (decimal_value r4)) \<and>
   (unit (left_value a) = unit v3 \<and>
    dec_sub (decimal_value (left_value a)) (decimal_value v3) = Inr d \<and>
    dec_lt_zero d = Inr True \<longrightarrow> subtract a v3 = Inl ValueError) \<and>
   (unit (left_value a) \<noteq> unit v4 \<and>
    to_bytes (left_value a) = Inr lb \<and> to_bytes v4 = Inr rb \<and>
    dec_sub lb rb = Inr d' \<and> dec_lt_zero d' = Inr True \<longrightarrow>
      subtract a v4 = Inl ValueError) \<and>
   ((\<exists>r. subtract a v5 = Inr r \<and> ge_zero (decimal_value r)) \<or>
    subtract a v5 = Inl ValueError \<or> subtract a v5 = Inl Overflow \<or>
    subtract a v5 = Inl InvalidOperation) \<and>
   (is_Finite (decimal_value (left_value a)) \<and> is_Finite (decimal_value v6) \<and>
    finite_unit (unit (left_value a)) \<and> finite_unit (unit v6) \<longrightarrow>
      (\<exists>r. subtract a v6 = Inr r \<and> ge_zero (decimal_value r)) \<or>
      subtract a v6 = Inl ValueError \<or> subtract a v6 = Inl Overflow) \<and>
   (multiply a f = Inr r5 \<longrightarrow> ge_zero (decimal_value r5)) \<and>
   (divide_op a d1 = Inr r6 \<longrightarrow> ge_zero (decimal_value r6)) \<and>
   (floor_divide a d2 = Inr r7 \<longrightarrow> ge_zero (decimal_value r7)) \<and>
   (modulo_op a d3 = Inr r8 \<longrightarrow> ge_zero (decimal_value r8))"
proof (intro conjI)
  show "StorageValue_init x u = Inr r1 \<longrightarrow> ge_zero (decimal_value r1)"
    using StorageValue_init_Inr [of x u r1] by blast
  show "ge_zero (decimal_value v0) \<longrightarrow> engine_ok (ConversionEngine_init v0)"
    using engine_ok_init [of v0] by blast
  show "engine_ok e \<and> convert_to e t = (Inr r2, e') \<longrightarrow>
      ge_zero (decimal_value r2) \<and> engine_ok e'"
    using convert_to_Inr [of e t r2 e'] by blast
  show "add a v1 = Inr r3 \<longrightarrow> ge_zero (decimal_value r3)"
    using add_Inr [of a v1 r3] by blast
  show "subtract a v2 = Inr r4 \<longrightarrow> ge_zero (decimal_value r4)"
    using subtract_Inr [of a v2 r4] by blast
  show "unit (left_value a) = unit v3 \<and>
    dec_sub (decimal_value (left_value a)) (decimal_value v3) = Inr d \<and>
    dec_lt_zero d = Inr True \<longrightarrow> subtract a v3 = Inl ValueError"
    using subtract_negative_same_unit [of a v3 d] by blast
  show "unit (left_value a) \<noteq> unit v4 \<and>
    to_bytes (left_value a) = Inr lb \<and> to_bytes v4 = Inr rb \<and>
    dec_sub lb rb = Inr d' \<and> dec_lt_zero d' = Inr True \<longrightarrow>
      subtract a v4 = Inl ValueError"
    using subtract_negative_bytes [of a v4 lb rb d'] by blast
  show "(\<exists>r. subtract a v5 = Inr r \<and> ge_zero (decimal_value r)) \<or>
    subtract a v5 = Inl ValueError \<or> subtract a v5 = Inl Overflow \<or>
    subtract a v5 = Inl InvalidOperation"
    by (rule subtract_outcomes)
  show "is_Finite (decimal_value (left_value a)) \<and> is_Finite (decimal_value v6) \<and>
    finite_unit (unit (left_value a)) \<and> finite_unit (unit v6) \<longrightarrow>
      (\<exists>r. subtract a v6 = Inr r \<and> ge_zero (decimal_value r)) \<or>
      subtract a v6 = Inl ValueError \<or> subtract a v6 = Inl Overflow"
    using subtract_finite_outcomes [of a v6] by blast
  show "multiply a f = Inr r5 \<longrightarrow> ge_zero (decimal_value r5)"
    using multiply_Inr [of a f r5] by blast
  show "divide_op a d1 = Inr r6 \<longrightarrow> ge_zero (decimal_value r6)"
    using divide_op_Inr [of a d1 r6] by blast
  show "floor_divide a d2 = Inr r7 \<longrightarrow> ge_zero (decimal_value r7)"
    using floor_divide_Inr [of a d2 r7] by blast
  show "modulo_op a d3 = Inr r8 \<longrightarrow> ge_zero (decimal_value r8)"
    using modulo_op_Inr [of a d3 r8] by blast
qed

theorem magnitude_never_negative_witness:
  "ge_zero (decimal_value \<lparr>decimal_value = Finite False 1024 0, unit = BYTES\<rparr>) \<and>
   engine_ok (ConversionEngine_init \<lparr>decimal_value = Finite False 1024 0, unit = BYTES\<rparr>) \<and>
   ge_zero (decimal_value \<lparr>decimal_value = Finite False 1 0, unit = KIB\<rparr>) \<and>
   engine_ok
     \<lparr>storage_value = \<lparr>decimal_value = Finite False 1024 0, unit = BYTES\<rparr>,
      conversion_cache =
        [''BYTES_to_KIB'' \<mapsto> \<lparr>decimal_value = Finite False 1 0, unit = KIB\<rparr>]\<rparr> \<and>
   ge_zero (decimal_value \<lparr>decimal_value = Finite False 3584 0, unit = BYTES\<rparr>) \<and>
   ge_zero (decimal_value \<lparr>decimal_value = Finite False 2560 0, unit = BYTES\<rparr>) \<and>
   subtract \<lparr>left_value = \<lparr>decimal_value = Finite False 3 0, unit = KIB\<rparr>\<rparr>
     \<lparr>decimal_value = Finite False 5 0, unit = KIB\<rparr> = Inl ValueError \<and>
   subtract \<lparr>left_value = \<lparr>decimal_value = Finite False 3 0, unit = KIB\<rparr>\<rparr>
     \<lparr>decimal_value = Finite False 4096 0, unit = BYTES\<rparr> = Inl ValueError \<and>
   ((\<exists>r. subtract \<lparr>left_value = \<lparr>decimal_value = Finite False 3 0, unit = KIB\<rparr>\<rparr>
          \<lparr>decimal_value = Finite False 512 0, unit = BYTES\<rparr> = Inr r \<and>
        ge_zero (decimal_value r)) \<or>
    subtract \<lparr>left_value = \<lparr>decimal_value = Finite False 3 0, unit = KIB\<rparr>\<rparr>
      \<lparr>decimal_value = Finite False 512 0, unit = BYTES\<rparr> = Inl ValueError \<or>
    subtract \<lparr>left_value = \<lparr>decimal_value = Finite False 3 0, unit = KIB\<rparr>\<rparr>
      \<lparr>decimal_value = Finite False 512 0, unit = BYTES\<rparr> = Inl Overflow) \<and>
   ge_zero (decimal_value \<lparr>decimal_value = Finite False 6 0, unit = KIB\<rparr>) \<and>
   ge_zero (decimal_value \<lparr>decimal_value = Finite False 15 (- 1), unit = KIB\<rparr>) \<and>
   ge_zero (decimal_value \<lparr>decimal_value = Finite False 1 0, unit = KIB\<rparr>)"
proof -
  let ?b1024 = "\<lparr>decimal_value = Finite False 1024 0, unit = BYTES\<rparr>"
  let ?k1 = "\<lparr>decimal_value = Finite False 1 0, unit = KIB\<rparr>"
  let ?a = "\<lparr>left_value = \<lparr>decimal_value = Finite False 3 0, unit = KIB\<rparr>\<rparr>"
  let ?e' = "\<lparr>storage_value = ?b1024, conversion_cache = [''BYTES_to_KIB'' \<mapsto> ?k1]\<rparr>"
  have h1: "StorageValue_init (PyInt 1024) BYTES = Inr ?b1024"
    by (simp add: eval_defs)
  have h2: "convert_to (ConversionEngine_init ?b1024) KIB = (Inr ?k1, ?e')"
    by (simp add: convert_to_def ConversionEngine_init_def cache_key_def eval_defs
        ndigits_eqI [of 3] strip_zeros_eval [of 51])
  have h3: "add ?a \<lparr>decimal_value = Finite False 512 0, unit = BYTES\<rparr> =
      Inr \<lparr>decimal_value = Finite False 3584 0, unit = BYTES\<rparr>"
    by (simp add: add_def eval_defs)
  have h4: "subtract ?a \<lparr>decimal_value = Finite False 512 0, unit = BYTES\<rparr> =
      Inr \<lparr>decimal_value = Finite False 2560 0, unit = BYTES\<rparr>"
    by (simp add: subtract_def eval_defs)
  have h5: "dec_sub (Finite False 3 0) (Finite False 5 0) = Inr (Finite True 2 0)"
    by (simp add: eval_defs)
  have h6: "to_bytes (left_value ?a) = Inr (Finite False 3072 0)"
    "to_bytes \<lparr>decimal_value = Finite False 4096 0, unit = BYTES\<rparr> = Inr (Finite False 4096 0)"
    "dec_sub (Finite False 3072 0) (Finite False 4096 0) = Inr (Finite True 1024 0)"
    by (simp_all add: eval_defs)
  have h7: "multiply ?a (PyInt 2) = Inr \<lparr>decimal_value = Finite False 6 0, unit = KIB\<rparr>"
    by (simp add: multiply_def eval_defs)
  have h8: "divide_op ?a (PyInt 2) = Inr \<lparr>decimal_value = Finite False 15 (- 1), unit = KIB\<rparr>"
    by (simp add: divide_op_def eval_defs ndigits_eqI [of 0] strip_zeros_eval [of 50])
  have h9: "floor_divide ?a (PyInt 2) = Inr ?k1"
    by (simp add: floor_divide_def eval_defs divide_int_def adjusted_def ndigits_eqI [of 0])
  have h10: "modulo_op ?a (PyInt 2) = Inr ?k1"
    by (simp add: modulo_op_def eval_defs divide_int_def adjusted_def ndigits_eqI [of 0])
  have u: "unit (left_value ?a) = unit \<lparr>decimal_value = Finite False 5 0, unit = KIB\<rparr>"
    "unit (left_value ?a) \<noteq> unit \<lparr>decimal_value = Finite False 4096 0, unit = BYTES\<rparr>"
    by (simp_all add: BYTES_def KIB_def)
  have ok: "engine_ok (ConversionEngine_init ?b1024)"
    by (simp add: engine_ok_def ConversionEngine_init_def)
  have fin: "is_Finite (decimal_value (left_value ?a))"
    "is_Finite (decimal_value \<lparr>decimal_value = Finite False 512 0, unit = BYTES\<rparr>)"
    "finite_unit (unit (left_value ?a))"
    "finite_unit (unit \<lparr>decimal_value = Finite False 512 0, unit = BYTES\<rparr>)"
    by (simp_all add: finite_unit_def KIB_def BYTES_def Decimal_of_int_def)
  show ?thesis
    using magnitude_never_negative [where x = "PyInt 1024" and u = BYTES and ?r1.0 = ?b1024
        and ?v0.0 = ?b1024 and e = "ConversionEngine_init ?b1024" and t = KIB and ?r2.0 = ?k1
        and e' = ?e' and a = ?a
        and ?v1.0 = "\<lparr>decimal_value = Finite False 512 0, unit = BYTES\<rparr>"
        and ?r3.0 = "\<lparr>decimal_value = Finite False 3584 0, unit = BYTES\<rparr>"
        and ?v2.0 = "\<lparr>decimal_value = Finite False 512 0, unit = BYTES\<rparr>"
        and ?r4.0 = "\<lparr>decimal_value = Finite False 2560 0, unit = BYTES\<rparr>"
        and ?v3.0 = "\<lparr>decimal_value = Finite False 5 0, unit = KIB\<rparr>"
        and d = "Finite True 2 0"
        and ?v4.0 = "\<lparr>decimal_value = Finite False 4096 0, unit = BYTES\<rparr>"
        and lb = "Finite False 3072 0" and rb = "Finite False 4096 0"
        and d' = "Finite True 1024 0"
        and ?v5.0 = "\<lparr>decimal_value = Finite False 512 0, unit = BYTES\<rparr>"
        and ?v6.0 = "\<lparr>decimal_value = Finite False 512 0, unit = BYTES\<rparr>"
        and f = "PyInt 2" and ?r5.0 = "\<lparr>decimal_value = Finite False 6 0, unit = KIB\<rparr>"
        and ?d1.0 = "PyInt 2"
        and ?r6.0 = "\<lparr>decimal_value = Finite False 15 (- 1), unit = KIB\<rparr>"
        and ?d2.0 = "PyInt 2" and ?r7.0 = ?k1 and ?d3.0 = "PyInt 2" and ?r8.0 = ?k1]
      h1 h2 h3 h4 h5 h6 h7 h8 h9 h10 u ok fin
    by simp
qed


section \<open>Identity conversion\<close>

text \<open>
  C6. Converting a value to its own unit is the identity: \<^verbatim>\<open>convert_to\<close> with the unit
  of the bound value returns that value itself, whatever the cache holds, and leaves the
  engine as it is; \<^verbatim>\<open>to_unit\<close> with the value's own unit returns the stored magnitude,
  with no arithmetic done on it.
\<close>

theorem convert_to_own_unit_identity:
  "convert_to e (unit (storage_value e)) = (Inr (storage_value e), e) \<and>
   to_unit v (unit v) = Inr (decimal_value v)"
  by (simp add: convert_to_def to_unit_def)

section \<open>The parser\<close>

lemmas string_eval_defs = Decimal_of_string_def strip_def is_space_def ord_def str_of_def
  lower_def lower_char_def is_digit_def parse_exponent_def int_of_digits_def

lemma ord_comma: "ord CHR '','' = 44" and ord_dot: "ord CHR ''.'' = 46"
  and ord_minus: "ord CHR ''-'' = 45"
  by (simp_all add: ord_def)

lemma lower_char_low: "c < 65 \<Longrightarrow> lower_char c = [c]"
  by (simp add: lower_char_def)

lemma set_lower_char_low:
  assumes "x < 65"
  shows "x \<in> set (lower_char c) \<longleftrightarrow> c = x"
  using assms by (auto simp: lower_char_def split: if_splits)


lemma lower_Nil: "lower [] = []" and lower_Cons: "lower (c # s) = lower_char c @ lower s"
  and lower_append: "lower (s @ t) = lower s @ lower t"
  by (simp_all add: lower_def)


lemma replace_Nil: "replace a b [] = []"
  and replace_Cons: "replace a b (x # s) = (if x = a then b else x) # replace a b s"
  and replace_append: "replace a b (s @ t) = replace a b s @ replace a b t"
  by (simp_all add: replace_def)

lemma replace_id: "a \<notin> set s \<Longrightarrow> replace a b s = s"
  by (induction s) (auto simp: replace_Nil replace_Cons)

lemma replace_lower_char:
  "replace (ord CHR '','') (ord CHR ''.'') (lower_char c) =
   lower_char (if c = ord CHR '','' then ord CHR ''.'' else c)"
proof (cases "c = 44")
  case True
  then show ?thesis by (simp add: ord_comma ord_dot lower_char_def replace_def)
next
  case False
  then have "44 \<notin> set (lower_char c)" by (simp add: set_lower_char_low)
  then show ?thesis using False by (simp add: ord_comma replace_id)
qed

lemma replace_lower:
  "replace (ord CHR '','') (ord CHR ''.'') (lower s) =
   lower (replace (ord CHR '','') (ord CHR ''.'') s)"
proof (induction s)
  case Nil
  show ?case by (simp add: lower_Nil replace_Nil)
next
  case (Cons c s)
  show ?case
    unfolding lower_Cons replace_Cons replace_append Cons replace_lower_char ..
qed

lemma replace_idem:
  "replace (ord CHR '','') (ord CHR ''.'') (replace (ord CHR '','') (ord CHR ''.'') s) =
   replace (ord CHR '','') (ord CHR ''.'') s"
  by (simp add: replace_def ord_def)

lemma not_space_comma_dot:
  "\<not> is_space (ord CHR '','')" "\<not> is_space (ord CHR ''.'')" "\<not> is_space (ord CHR ''-'')"
  by (simp_all add: is_space_def ord_def)

lemma dropWhile_replace:
  "dropWhile is_space (replace (ord CHR '','') (ord CHR ''.'') s) =
   replace (ord CHR '','') (ord CHR ''.'') (dropWhile is_space s)"
  by (induction s) (auto simp: replace_Nil replace_Cons not_space_comma_dot)

lemma rev_replace: "rev (replace a b s) = replace a b (rev s)"
  by (simp add: replace_def rev_map)

lemma strip_replace:
  "strip (replace (ord CHR '','') (ord CHR ''.'') s) =
   replace (ord CHR '','') (ord CHR ''.'') (strip s)"
  by (simp add: strip_def dropWhile_replace rev_replace)

lemma replace_Nil_iff: "replace a b s = [] \<longleftrightarrow> s = []"
  by (simp add: replace_def)

lemma parse_comma_as_point:
  "parse P (replace (ord CHR '','') (ord CHR ''.'') s) d = parse P s d"
  by (simp add: parse_def strip_replace replace_Nil_iff replace_lower [symmetric] replace_idem)

lemma parse_example:
  assumes "unit_aliases P (str_of ''kib'') = Some KIB"
  shows "parse P (str_of ''1,024 KiB'') d = Inr (Finite False 1024 (- 3), KIB)"
proof -
  have s: "strip (str_of ''1,024 KiB'') = str_of ''1,024 KiB''"
    by (simp add: strip_def is_space_def ord_def str_of_def)
  have l: "lower (str_of ''1,024 KiB'') = str_of ''1,024 kib''"
    "lower (str_of ''kib'') = str_of ''kib''"
    by (simp_all add: lower_def lower_char_def ord_def str_of_def)
  have r: "replace (ord CHR '','') (ord CHR ''.'') (str_of ''1,024 kib'') = str_of ''1.024 kib''"
    by (simp add: replace_def ord_def str_of_def)
  have m: "pattern_match (str_of ''1.024 kib'') = Some (str_of ''1.024'', str_of ''kib'')"
    by (simp add: pattern_match_def numchar_def is_number_def is_letter_def is_digit_def
        is_space_def ord_def str_of_def Let_def)
  have v: "Decimal_of_string (str_of ''1.024'') = Inr (Finite False 1024 (- 3))"
    by (simp add: string_eval_defs)
  have ne: "str_of ''1,024 KiB'' \<noteq> []"
    by (simp add: str_of_def)
  show ?thesis
    using assms by (simp add: parse_def s l r m v ne)
qed







































text \<open>
  C2. The parser treats \<^verbatim>\<open>,\<close> as a decimal separator: a string parses as the string
  with every comma replaced by a point does. For that very reason \<^verbatim>\<open>parse("1,024 KiB")\<close>
  does not return 1024, as the claim and the docstring of \<^verbatim>\<open>parse\<close> (lines 361-365) say:
  with an alias table that maps \<^verbatim>\<open>kib\<close> to KIB it returns the decimal 1.024 (coefficient
  1024, exponent -3) paired with KIB.
\<close>

theorem parse_1_024_KiB_is_1_point_024:
  "parse P (replace (ord CHR '','') (ord CHR ''.'') s) d = parse P s d \<and>
   parse \<lparr>unit_aliases = [str_of ''kib'' \<mapsto> KIB]\<rparr> (str_of ''1,024 KiB'') None =
     Inr (Finite False 1024 (- 3), KIB) \<and>
   dec_val (Finite False 1024 (- 3)) = 1024 / 1000 \<and>
   dec_val (Finite False 1024 (- 3)) \<noteq> 1024"
  by (simp add: parse_comma_as_point parse_example signed_def pow10_def)





section \<open>The decimal cache\<close>

lemma max_cache_size_get [simp]:
  "max_cache_size (snd (get_cached_decimal pm s)) = max_cache_size pm"
  by (auto simp: get_cached_decimal_def Let_def split: option.splits sum.splits list.splits)








lemma max_cache_size_run [simp]: "max_cache_size (run_calls pm ss) = max_cache_size pm"
  by (induction ss arbitrary: pm) simp_all








end
